theory Spec2Isabelle
  imports Complex_Main
begin

section \<open>The display client of the Tauri-Bevy demo\<close>

text \<open>
  The repository holds two revisions of the Vue component that displays the frames of the
  renderer: \<^verbatim>\<open>src/src/App.vue\<close> fetches frames through the structured call
  \<^verbatim>\<open>get_frame\<close> (Base64 text plus width and height), and
  \<^verbatim>\<open>src/unnamed/part_000\<close> fetches them from the binary resource endpoint and adds
  the pointer handlers that feed the camera. Both share the statistics, the error branch
  and the start/stop controls, word for word.

  The component is event driven. Every handler runs to completion; an \<^verbatim>\<open>async\<close>
  function runs up to its first \<^verbatim>\<open>await\<close>, and its continuation runs as a later event
  of its own. The model is therefore a state record, one function per handler of the
  source, and a \<open>step\<close> function that dispatches one browser event. What the browser and
  the backend decide (clock readings, the outcome of a request, the decoded picture) comes
  in with the event.

  A JavaScript \<^verbatim>\<open>number\<close> is modelled as a real: the rounding of double precision
  arithmetic is not modelled.
\<close>

subsection \<open>Values\<close>

type_synonym number = real

text \<open>A thrown value: an error object with its name and its message (a rejected
  \<^verbatim>\<open>invoke\<close> that carries a plain string has the empty name).\<close>

datatype js_error = JsError string string

fun String_of_error :: "js_error \<Rightarrow> string" where
  "String_of_error (JsError n m) =
     (if m = [] then n else if n = [] then m else n @ '': '' @ m)"

definition digit_char :: "nat \<Rightarrow> char" where
  "digit_char d = char_of (48 + d)"

function string_of_nat :: "nat \<Rightarrow> string" where
  "string_of_nat n =
     (if n < 10 then [digit_char n] else string_of_nat (n div 10) @ [digit_char (n mod 10)])"
  by pat_completeness auto
termination
  by (relation "measure id") auto

datatype js_value = Number number | Text string | Boolean bool | Undefined

text \<open>An object is its list of properties, in insertion order.\<close>

type_synonym js_object = "(string \<times> js_value) list"

datatype ts_type = TNumber | TString | TBoolean

fun has_ts_type :: "ts_type \<Rightarrow> js_value \<Rightarrow> bool" where
  "has_ts_type TNumber (Number x) = True"
| "has_ts_type TString (Text t) = True"
| "has_ts_type TBoolean (Boolean b) = True"
| "has_ts_type ty v = False"

text \<open>An object conforms to an interface when it has exactly the declared properties,
  each once, and each value has the declared type.\<close>

definition conforms :: "(string \<times> ts_type) list \<Rightarrow> js_object \<Rightarrow> bool" where
  "conforms iface obj \<longleftrightarrow>
     distinct (map fst obj) \<and> set (map fst obj) = set (map fst iface) \<and>
     list_all (\<lambda>(k, ty). case map_of obj k of None \<Rightarrow> False | Some v \<Rightarrow> has_ts_type ty v) iface"

subsection \<open>Types of the component\<close>

text \<open>\<^verbatim>\<open>interface FrameResponse\<close> (App.vue).\<close>

record FrameResponse =
  data :: string
  width :: int
  height :: int

text \<open>\<^verbatim>\<open>interface PerformanceStats\<close>: the declared properties with their types.\<close>

definition PerformanceStats :: "(string \<times> ts_type) list" where
  "PerformanceStats =
     [(''gpu_transfer_ms'', TNumber),
      (''data_processing_ms'', TNumber),
      (''frame_encoding_ms'', TNumber),
      (''bevy_fps'', TNumber),
      (''frame_count'', TNumber),
      (''data_size_kb'', TNumber),
      (''tauri_get_frame_ms'', TNumber),
      (''tauri_serialize_ms'', TNumber)]"

text \<open>\<^verbatim>\<open>interface FrontendPerf\<close>.\<close>

record FrontendPerf =
  tauri_call_ms :: number
  image_create_ms :: number
  canvas_draw_ms :: number
  total_loop_ms :: number
  frontend_fps :: number

text \<open>\<^verbatim>\<open>mouseState\<close>.\<close>

record MouseState =
  leftButton :: bool
  rightButton :: bool
  lastX :: number
  lastY :: number

text \<open>The fields of a \<^verbatim>\<open>MouseEvent\<close> and of a \<^verbatim>\<open>WheelEvent\<close> that the handlers read.\<close>

record MouseEvent =
  button :: int
  clientX :: number
  clientY :: number

record WheelEvent =
  deltaY :: number

text \<open>What the component sends to the backend: the three Tauri commands and the GET of the
  frame resource. \<open>send_mouse_input\<close> carries deltaX, deltaY, scrollDelta, leftButton and
  rightButton, in this order.\<close>

datatype request =
    send_mouse_input number number number bool bool
  | get_performance_stats
  | get_frame
  | fetch_frame

text \<open>The canvas element: whether \<^verbatim>\<open>getContext("2d")\<close> gives a context.\<close>

record canvas =
  context2d :: bool

text \<open>A decoded picture (\<^verbatim>\<open>ImageBitmap\<close>) and the pixel buffer of an \<^verbatim>\<open>ImageData\<close>:
  width, height and the bytes.\<close>

datatype ImageBitmap = ImageBitmap nat nat "nat list"

datatype ImageData = ImageData "nat list" nat nat

datatype draw_op =
    drawImage ImageBitmap number number
  | putImageData ImageData number number

text \<open>The response of \<^verbatim>\<open>fetch\<close>: the status and what reading the body gives.\<close>

record response =
  status :: nat
  body :: "js_error + nat list"

definition ok :: "response \<Rightarrow> bool" where
  "ok r \<longleftrightarrow> 200 \<le> status r \<and> status r \<le> 299"

text \<open>The two local constants a render loop holds across its \<^verbatim>\<open>await\<close>.\<close>

record loop_frame =
  loopStart :: number
  callStart :: number

text \<open>The clock readings of the continuation of a render loop, in the order the source
  takes them; \<open>dateNow\<close> is the \<^verbatim>\<open>Date.now()\<close> of the error branch and \<open>fpsNow\<close>
  the \<^verbatim>\<open>performance.now()\<close> of \<^verbatim>\<open>updateFps\<close>.\<close>

record clock =
  callEnd :: number
  imageStart :: number
  imageEnd :: number
  drawStart :: number
  drawEnd :: number
  loopEnd :: number
  fpsNow :: number
  dateNow :: number

subsection \<open>State\<close>

text \<open>The reactive state and the module variables of the component, then what the browser
  holds for it: the canvas pixels drawn so far, the pending animation-frame requests, the
  active intervals, the next handles, the render loops and stats calls suspended at an
  \<^verbatim>\<open>await\<close>, the requests sent and the console.\<close>

record state =
  canvasRef :: "canvas option"
  isRendering :: bool
  fps :: number
  frameCount :: nat
  statusMessage :: string
  errorMessage :: string
  lastErrorTime :: number
  backendStats :: js_object
  frontendStats :: FrontendPerf
  animationId :: "nat option"
  fpsFrameCount :: nat
  fpsLastUpdate :: number
  frontendPerfSamples :: "FrontendPerf list"
  mouseState :: MouseState
  statsInterval :: "nat option"
  screen :: "draw_op list"
  rafPending :: "nat list"
  intervals :: "nat list"
  nextRafHandle :: nat
  nextTimerHandle :: nat
  suspended :: "loop_frame list"
  statsPending :: nat
  requests :: "request list"
  console :: "string list"

definition initial_state :: "canvas option \<Rightarrow> number \<Rightarrow> state" where
  "initial_state cv now =
     \<lparr>canvasRef = cv,
      isRendering = False,
      fps = 0,
      frameCount = 0,
      statusMessage = ''Click 'Start' to begin rendering'',
      errorMessage = [],
      lastErrorTime = 0,
      backendStats =
        [(''gpu_transfer_ms'', Number 0),
         (''data_processing_ms'', Number 0),
         (''frame_encoding_ms'', Number 0),
         (''bevy_fps'', Number 0),
         (''frame_count'', Number 0),
         (''data_size_kb'', Number 0),
         (''tauri_get_frame_ms'', Number 0),
         (''tauri_serialize_ms'', Number 0)],
      frontendStats =
        \<lparr>tauri_call_ms = 0, image_create_ms = 0, canvas_draw_ms = 0, total_loop_ms = 0,
         frontend_fps = 0\<rparr>,
      animationId = None,
      fpsFrameCount = 0,
      fpsLastUpdate = now,
      frontendPerfSamples = [],
      mouseState = \<lparr>leftButton = False, rightButton = False, lastX = 0, lastY = 0\<rparr>,
      statsInterval = None,
      screen = [],
      rafPending = [],
      intervals = [],
      nextRafHandle = 1,
      nextTimerHandle = 1,
      suspended = [],
      statsPending = 0,
      requests = [],
      console = []\<rparr>"

subsection \<open>Browser primitives\<close>

definition requestAnimationFrame :: "state \<Rightarrow> nat \<times> state" where
  "requestAnimationFrame s =
     (nextRafHandle s,
      s\<lparr>rafPending := rafPending s @ [nextRafHandle s], nextRafHandle := nextRafHandle s + 1\<rparr>)"

definition cancelAnimationFrame :: "nat \<Rightarrow> state \<Rightarrow> state" where
  "cancelAnimationFrame h s = s\<lparr>rafPending := removeAll h (rafPending s)\<rparr>"

definition setInterval :: "state \<Rightarrow> nat \<times> state" where
  "setInterval s =
     (nextTimerHandle s,
      s\<lparr>intervals := intervals s @ [nextTimerHandle s], nextTimerHandle := nextTimerHandle s + 1\<rparr>)"

definition clearInterval :: "nat \<Rightarrow> state \<Rightarrow> state" where
  "clearInterval h s = s\<lparr>intervals := removeAll h (intervals s)\<rparr>"

text \<open>\<^verbatim>\<open>Math.round\<close>: the nearest integer, a half rounded up.\<close>

definition Math_round :: "number \<Rightarrow> number" where
  "Math_round x = of_int \<lfloor>x + 1 / 2\<rfloor>"

subsection \<open>Pointer input (part_000)\<close>

text \<open>\<^verbatim>\<open>sendMouseInput\<close> up to its \<^verbatim>\<open>await\<close>: the command goes out.\<close>

definition sendMouseInput :: "number \<Rightarrow> number \<Rightarrow> number \<Rightarrow> bool \<Rightarrow> bool \<Rightarrow> state \<Rightarrow> state" where
  "sendMouseInput dX dY scrollDelta leftB rightB s =
     s\<lparr>requests := requests s @ [send_mouse_input dX dY scrollDelta leftB rightB]\<rparr>"

text \<open>Its continuation, on the outcome of the command: the \<^verbatim>\<open>try\<close> ends or the
  \<^verbatim>\<open>catch\<close> runs its empty body. The first component is how the promise of
  \<^verbatim>\<open>sendMouseInput\<close> settles.\<close>

definition sendMouseInput_settled :: "js_error + js_value \<Rightarrow> state \<Rightarrow> (js_error + unit) \<times> state" where
  "sendMouseInput_settled outcome s =
     (case outcome of
        Inr payload \<Rightarrow> (Inr (), s)
      | Inl error \<Rightarrow> (Inr (), s))"

definition handleMouseDown :: "MouseEvent \<Rightarrow> state \<Rightarrow> state" where
  "handleMouseDown event s =
     (let m = mouseState s;
          m1 = (if button event = 0 then m\<lparr>leftButton := True\<rparr>
                else if button event = 2 then m\<lparr>rightButton := True\<rparr>
                else m)
      in s\<lparr>mouseState := m1\<lparr>lastX := clientX event, lastY := clientY event\<rparr>\<rparr>)"

definition handleMouseUp :: "MouseEvent \<Rightarrow> state \<Rightarrow> state" where
  "handleMouseUp event s =
     (if button event = 0 then
        (let s1 = s\<lparr>mouseState := (mouseState s)\<lparr>leftButton := False\<rparr>\<rparr>
         in sendMouseInput 0 0 0 False (rightButton (mouseState s1)) s1)
      else if button event = 2 then
        (let s1 = s\<lparr>mouseState := (mouseState s)\<lparr>rightButton := False\<rparr>\<rparr>
         in sendMouseInput 0 0 0 (leftButton (mouseState s1)) False s1)
      else s)"

definition handleMouseMove :: "MouseEvent \<Rightarrow> state \<Rightarrow> state" where
  "handleMouseMove event s =
     (if \<not> leftButton (mouseState s) \<and> \<not> rightButton (mouseState s) then s
      else
        (let dX = clientX event - lastX (mouseState s);
             dY = clientY event - lastY (mouseState s);
             s1 = s\<lparr>mouseState := (mouseState s)\<lparr>lastX := clientX event, lastY := clientY event\<rparr>\<rparr>
         in sendMouseInput dX dY 0
              (leftButton (mouseState s1)) (rightButton (mouseState s1)) s1))"

definition handleWheel :: "WheelEvent \<Rightarrow> state \<Rightarrow> state" where
  "handleWheel event s =
     (let scrollDelta = - deltaY event * (1 / 100)
      in sendMouseInput 0 0 scrollDelta
           (leftButton (mouseState s)) (rightButton (mouseState s)) s)"

subsection \<open>Platform functions of the structured path (App.vue)\<close>

text \<open>\<^verbatim>\<open>atob\<close> is the forgiving Base64 decoding of the web platform: ASCII whitespace is
  dropped; when the length is then a multiple of four, one or two trailing \<open>=\<close> are
  dropped; a length of 1 modulo 4 or a character outside the alphabet fails; every
  character gives six bits, every 24 bits three bytes, and of a rest of 12 or 18 bits
  the last four or two are discarded.\<close>

definition ascii_whitespace :: "char \<Rightarrow> bool" where
  "ascii_whitespace c \<longleftrightarrow> (of_char c :: nat) \<in> {9, 10, 12, 13, 32}"

definition base64_index :: "char \<Rightarrow> nat option" where
  "base64_index c =
     (let n = (of_char c :: nat) in
      if 65 \<le> n \<and> n \<le> 90 then Some (n - 65)
      else if 97 \<le> n \<and> n \<le> 122 then Some (n - 71)
      else if 48 \<le> n \<and> n \<le> 57 then Some (n + 4)
      else if n = 43 then Some 62
      else if n = 47 then Some 63
      else None)"

definition strip_padding :: "string \<Rightarrow> string" where
  "strip_padding d =
     (if length d mod 4 = 0 then
        (if 2 \<le> length d \<and> drop (length d - 2) d = ''=='' then take (length d - 2) d
         else if 1 \<le> length d \<and> drop (length d - 1) d = ''='' then take (length d - 1) d
         else d)
      else d)"

fun sextets_to_bytes :: "nat list \<Rightarrow> nat list" where
  "sextets_to_bytes (a # b # c # d # rest) =
     (a * 4 + b div 16) # ((b mod 16) * 16 + c div 4) # ((c mod 4) * 64 + d) #
     sextets_to_bytes rest"
| "sextets_to_bytes [a, b, c] = [a * 4 + b div 16, (b mod 16) * 16 + c div 4]"
| "sextets_to_bytes [a, b] = [a * 4 + b div 16]"
| "sextets_to_bytes rest = []"

definition atob :: "string \<Rightarrow> js_error + string" where
  "atob encoded =
     (let d = strip_padding (filter (\<lambda>c. \<not> ascii_whitespace c) encoded) in
      if length d mod 4 = 1 then Inl (JsError ''InvalidCharacterError'' [])
      else case those (map base64_index d) of
          None \<Rightarrow> Inl (JsError ''InvalidCharacterError'' [])
        | Some sextets \<Rightarrow> Inr (map char_of (sextets_to_bytes sextets)))"

text \<open>A store into a \<^verbatim>\<open>Uint8ClampedArray\<close> clamps the value to 255; a store past the
  end is ignored, as \<open>list_update\<close> does.\<close>

definition clamped_store :: "nat list \<Rightarrow> nat \<Rightarrow> nat \<Rightarrow> nat list" where
  "clamped_store bytes i v = bytes[i := min v 255]"

text \<open>The \<^verbatim>\<open>for\<close> loop that copies the character codes of the decoded string.\<close>

function copy_char_codes :: "string \<Rightarrow> nat \<Rightarrow> nat list \<Rightarrow> nat list" where
  "copy_char_codes binaryString i bytes =
     (if i < length binaryString
      then copy_char_codes binaryString (i + 1)
             (clamped_store bytes i (of_char (binaryString ! i)))
      else bytes)"
  by pat_completeness auto
termination
  by (relation "measure (\<lambda>(binaryString, i, bytes). length binaryString - i)") auto

text \<open>An argument of IDL type \<^verbatim>\<open>unsigned long\<close> is taken modulo \<open>2^32\<close>.\<close>

definition unsigned_long :: "int \<Rightarrow> nat" where
  "unsigned_long x = nat (x mod 2 ^ 32)"

text \<open>\<^verbatim>\<open>new ImageData(data, sw, sh)\<close>: the byte length must be a nonzero multiple of
  four, the pixel count a multiple of \<open>sw\<close>, and the quotient equal to \<open>sh\<close>.\<close>

definition new_ImageData :: "nat list \<Rightarrow> int \<Rightarrow> int \<Rightarrow> js_error + ImageData" where
  "new_ImageData bytes w h =
     (let sw = unsigned_long w; sh = unsigned_long h; n = length bytes in
      if n = 0 \<or> n mod 4 \<noteq> 0 then Inl (JsError ''InvalidStateError'' [])
      else if sw = 0 \<or> (n div 4) mod sw \<noteq> 0 then Inl (JsError ''IndexSizeError'' [])
      else if sh \<noteq> (n div 4) div sw then Inl (JsError ''IndexSizeError'' [])
      else Inr (ImageData bytes sw sh))"

subsection \<open>Getting a frame\<close>

text \<open>The bytes the structured path hands to \<^verbatim>\<open>new ImageData\<close> (App.vue, lines 139 to
  143).\<close>

definition decoded_bytes :: "string \<Rightarrow> nat list" where
  "decoded_bytes binaryString =
     copy_char_codes binaryString 0 (replicate (length binaryString) 0)"

text \<open>The \<^verbatim>\<open>try\<close> block of App.vue from the settled \<^verbatim>\<open>invoke("get_frame")\<close> up to the
  drawing call: the thrown value, or the call made on the 2D context.\<close>

definition structured_frame :: "js_error + FrameResponse \<Rightarrow> js_error + draw_op" where
  "structured_frame outcome =
     (case outcome of
        Inl error \<Rightarrow> Inl error
      | Inr resp \<Rightarrow>
          (case atob (data resp) of
             Inl error \<Rightarrow> Inl error
           | Inr binaryString \<Rightarrow>
               (case new_ImageData (decoded_bytes binaryString) (width resp) (height resp) of
                  Inl error \<Rightarrow> Inl error
                | Inr imageData \<Rightarrow> Inr (putImageData imageData 0 0))))"

text \<open>The same stretch of part_000, from the settled \<^verbatim>\<open>fetch\<close>. The decoder of the
  browser, \<^verbatim>\<open>createImageBitmap\<close>, is a parameter.\<close>

definition binary_frame ::
  "(nat list \<Rightarrow> js_error + ImageBitmap) \<Rightarrow> js_error + response \<Rightarrow> js_error + draw_op" where
  "binary_frame createImageBitmap outcome =
     (case outcome of
        Inl error \<Rightarrow> Inl error
      | Inr resp \<Rightarrow>
          if \<not> ok resp
          then Inl (JsError ''Error'' (''Frame fetch failed: '' @ string_of_nat (status resp)))
          else
            (case body resp of
               Inl error \<Rightarrow> Inl error
             | Inr blob \<Rightarrow>
                 (case createImageBitmap blob of
                    Inl error \<Rightarrow> Inl error
                  | Inr imageBitmap \<Rightarrow> Inr (drawImage imageBitmap 0 0))))"

datatype revision = App_vue | part_000

datatype frame_outcome =
    Fetched "js_error + response"
  | Invoked "js_error + FrameResponse"

fun frame_request :: "revision \<Rightarrow> request" where
  "frame_request App_vue = get_frame"
| "frame_request part_000 = fetch_frame"

text \<open>What the \<^verbatim>\<open>try\<close> block of a revision makes of an outcome; an outcome of the other
  revision's call cannot reach it.\<close>

fun frame_result ::
  "revision \<Rightarrow> (nat list \<Rightarrow> js_error + ImageBitmap) \<Rightarrow> frame_outcome \<Rightarrow> (js_error + draw_op) option" where
  "frame_result part_000 createImageBitmap (Fetched outcome) =
     Some (binary_frame createImageBitmap outcome)"
| "frame_result App_vue createImageBitmap (Invoked outcome) = Some (structured_frame outcome)"
| "frame_result rv createImageBitmap outcome = None"

subsection \<open>Render loop and statistics (both revisions)\<close>

definition avg :: "(FrontendPerf \<Rightarrow> number) \<Rightarrow> FrontendPerf list \<Rightarrow> number" where
  "avg key samples = foldl (\<lambda>sum s. sum + key s) 0 samples / real (length samples)"

text \<open>Store a performance sample: push, keep only the last 30, update the averages.\<close>

definition store_sample :: "FrontendPerf \<Rightarrow> state \<Rightarrow> state" where
  "store_sample sample s =
     (let pushed = frontendPerfSamples s @ [sample];
          kept = (if length pushed > 30 then tl pushed else pushed);
          s1 = s\<lparr>frontendPerfSamples := kept\<rparr>
      in if length kept > 0
         then s1\<lparr>frontendStats :=
                \<lparr>tauri_call_ms = avg tauri_call_ms kept,
                 image_create_ms = avg image_create_ms kept,
                 canvas_draw_ms = avg canvas_draw_ms kept,
                 total_loop_ms = avg total_loop_ms kept,
                 frontend_fps = fps s1\<rparr>\<rparr>
         else s1)"

definition updateFps :: "number \<Rightarrow> state \<Rightarrow> state" where
  "updateFps now s =
     (let s1 = s\<lparr>fpsFrameCount := fpsFrameCount s + 1\<rparr>
      in if now - fpsLastUpdate s1 \<ge> 1000
         then s1\<lparr>fps := Math_round (real (fpsFrameCount s1) / ((now - fpsLastUpdate s1) / 1000)),
                 fpsFrameCount := 0,
                 fpsLastUpdate := now\<rparr>
         else s1)"

text \<open>\<^verbatim>\<open>renderLoop\<close> up to its first \<^verbatim>\<open>await\<close>; the two clock readings are
  \<^verbatim>\<open>loopStart\<close> and the start of the call.\<close>

definition renderLoop :: "revision \<Rightarrow> number \<Rightarrow> number \<Rightarrow> state \<Rightarrow> state" where
  "renderLoop rv t0 t1 s =
     (if \<not> isRendering s then s
      else case canvasRef s of
          None \<Rightarrow> s\<lparr>console := console s @ [''Canvas not available'']\<rparr>
        | Some cv \<Rightarrow>
            if \<not> context2d cv then s\<lparr>console := console s @ [''Could not get 2D context'']\<rparr>
            else s\<lparr>requests := requests s @ [frame_request rv],
                   suspended := suspended s @ [\<lparr>loopStart = t0, callStart = t1\<rparr>]\<rparr>)"

text \<open>The performance sample of one loop, from its clock readings.\<close>

definition loop_sample :: "clock \<Rightarrow> loop_frame \<Rightarrow> FrontendPerf" where
  "loop_sample clk lf =
     \<lparr>tauri_call_ms = callEnd clk - callStart lf,
      image_create_ms = imageEnd clk - imageStart clk,
      canvas_draw_ms = drawEnd clk - drawStart clk,
      total_loop_ms = loopEnd clk - loopStart lf,
      frontend_fps = 0\<rparr>"

text \<open>The rest of the \<^verbatim>\<open>try\<close> block once the picture is there: draw, store the sample,
  count the frame, clear the error message.\<close>

definition frame_drawn :: "draw_op \<Rightarrow> clock \<Rightarrow> loop_frame \<Rightarrow> state \<Rightarrow> state" where
  "frame_drawn drawing clk lf s =
     (let s1 = s\<lparr>screen := screen s @ [drawing]\<rparr>;
          s2 = store_sample (loop_sample clk lf) s1;
          s3 = s2\<lparr>frameCount := frameCount s2 + 1\<rparr>;
          s4 = updateFps (fpsNow clk) s3
      in s4\<lparr>errorMessage := []\<rparr>)"

text \<open>The \<^verbatim>\<open>catch\<close> block.\<close>

definition frame_failed :: "js_error \<Rightarrow> number \<Rightarrow> state \<Rightarrow> state" where
  "frame_failed error now s =
     (if now - lastErrorTime s > 1000
      then s\<lparr>console := console s @ [''Frame fetch error: '' @ String_of_error error],
             errorMessage := String_of_error error,
             lastErrorTime := now\<rparr>
      else s)"

text \<open>Schedule the next frame.\<close>

definition schedule_next :: "state \<Rightarrow> state" where
  "schedule_next s =
     (if isRendering s
      then (let (h, s1) = requestAnimationFrame s in s1\<lparr>animationId := Some h\<rparr>)
      else s)"

text \<open>The continuation of \<^verbatim>\<open>renderLoop\<close> after its \<^verbatim>\<open>await\<close>s.\<close>

definition renderLoop_settled :: "js_error + draw_op \<Rightarrow> clock \<Rightarrow> loop_frame \<Rightarrow> state \<Rightarrow> state" where
  "renderLoop_settled result clk lf s =
     schedule_next
       (case result of
          Inr drawing \<Rightarrow> frame_drawn drawing clk lf s
        | Inl error \<Rightarrow> frame_failed error (dateNow clk) s)"

definition updateBackendStats :: "state \<Rightarrow> state" where
  "updateBackendStats s =
     s\<lparr>requests := requests s @ [get_performance_stats], statsPending := statsPending s + 1\<rparr>"

definition updateBackendStats_settled :: "js_error + js_object \<Rightarrow> state \<Rightarrow> state" where
  "updateBackendStats_settled outcome s =
     (case outcome of
        Inr stats \<Rightarrow> s\<lparr>backendStats := stats\<rparr>
      | Inl error \<Rightarrow> s)"

subsection \<open>Controls\<close>

definition startRendering :: "number \<Rightarrow> state \<Rightarrow> state" where
  "startRendering now s =
     (if isRendering s then s
      else
        (let s1 = s\<lparr>isRendering := True, statusMessage := ''Rendering...'', errorMessage := [],
                    fpsLastUpdate := now, fpsFrameCount := 0\<rparr>;
             (h, s2) = requestAnimationFrame s1;
             s3 = s2\<lparr>animationId := Some h\<rparr>;
             (t, s4) = setInterval s3;
             s5 = s4\<lparr>statsInterval := Some t\<rparr>
         in updateBackendStats s5))"

definition stopRendering :: "state \<Rightarrow> state" where
  "stopRendering s =
     (let s1 = s\<lparr>isRendering := False, statusMessage := ''Rendering stopped''\<rparr>;
          s2 = (case animationId s1 of
                  Some h \<Rightarrow> (cancelAnimationFrame h s1)\<lparr>animationId := None\<rparr>
                | None \<Rightarrow> s1)
      in case statsInterval s2 of
           Some t \<Rightarrow> (clearInterval t s2)\<lparr>statsInterval := None\<rparr>
         | None \<Rightarrow> s2)"

subsection \<open>Events\<close>

text \<open>One event of the browser: a call of start or stop (the buttons, the mount timer, the
  unmount hook), an animation-frame callback, the settling of the frame request of the
  suspended render loop number \<open>i\<close>, a tick of an interval, the settling of a stats call,
  the pointer events, and the settling of an input command.\<close>

datatype event =
    Start number
  | Stop
  | AnimationFrame nat number number
  | FrameSettled nat frame_outcome clock
  | IntervalTick nat
  | StatsSettled "js_error + js_object"
  | MouseDown MouseEvent
  | MouseUp MouseEvent
  | MouseMove MouseEvent
  | Wheel WheelEvent
  | InputSettled "js_error + js_value"

text \<open>An event that cannot happen in the state (a handle that is not pending, a loop that
  is not suspended, a pointer handler that App.vue does not have) leaves it as it is.\<close>

fun step :: "revision \<Rightarrow> (nat list \<Rightarrow> js_error + ImageBitmap) \<Rightarrow> event \<Rightarrow> state \<Rightarrow> state" where
  "step rv dec (Start now) s = startRendering now s"
| "step rv dec Stop s = stopRendering s"
| "step rv dec (AnimationFrame h t0 t1) s =
     (if h \<in> set (rafPending s)
      then renderLoop rv t0 t1 (s\<lparr>rafPending := removeAll h (rafPending s)\<rparr>)
      else s)"
| "step rv dec (FrameSettled i outcome clk) s =
     (if i < length (suspended s) then
        (case frame_result rv dec outcome of
           None \<Rightarrow> s
         | Some result \<Rightarrow>
             renderLoop_settled result clk (suspended s ! i)
               (s\<lparr>suspended := take i (suspended s) @ drop (i + 1) (suspended s)\<rparr>))
      else s)"
| "step rv dec (IntervalTick t) s =
     (if t \<in> set (intervals s) then updateBackendStats s else s)"
| "step rv dec (StatsSettled outcome) s =
     (if statsPending s > 0
      then updateBackendStats_settled outcome (s\<lparr>statsPending := statsPending s - 1\<rparr>)
      else s)"
| "step rv dec (MouseDown ev) s = (if rv = part_000 then handleMouseDown ev s else s)"
| "step rv dec (MouseUp ev) s = (if rv = part_000 then handleMouseUp ev s else s)"
| "step rv dec (MouseMove ev) s = (if rv = part_000 then handleMouseMove ev s else s)"
| "step rv dec (Wheel ev) s = (if rv = part_000 then handleWheel ev s else s)"
| "step rv dec (InputSettled outcome) s = snd (sendMouseInput_settled outcome s)"

definition run :: "revision \<Rightarrow> (nat list \<Rightarrow> js_error + ImageBitmap) \<Rightarrow> event list \<Rightarrow> state \<Rightarrow> state" where
  "run rv dec evs s = foldl (\<lambda>s ev. step rv dec ev s) s evs"

subsection \<open>The stats call of the backend\<close>

text \<open>Modelled from the spec: the Performance Aggregator and its stats call (sections 3,
  4.6 and 6 of the specification) belong to the backend, which is not among the source
  files. A sample has the named durations (GPU transfer, CPU processing, encode, total)
  and a frame index; the aggregator keeps the window of recent samples and the cumulative
  counters (frame count, measured frames per second, last payload size) and the two call
  timings; the stats call answers with the arithmetic mean of each metric over the window
  and the counters, under the field names of section 6.\<close>

record PerformanceSample =
  gpu_transfer :: number
  cpu_processing :: number
  encode :: number
  total :: number
  frame_index :: nat

record aggregator =
  sample_window :: "PerformanceSample list"
  frame_counter :: nat
  measured_fps :: number
  last_payload_kb :: number
  get_frame_time :: number
  serialize_time :: number

definition window_mean :: "(PerformanceSample \<Rightarrow> number) \<Rightarrow> PerformanceSample list \<Rightarrow> number" where
  "window_mean metric w = (if w = [] then 0 else sum_list (map metric w) / real (length w))"

definition stats_call :: "aggregator \<Rightarrow> js_object" where
  "stats_call a =
     [(''gpu_transfer_ms'', Number (window_mean gpu_transfer (sample_window a))),
      (''data_processing_ms'', Number (window_mean cpu_processing (sample_window a))),
      (''frame_encoding_ms'', Number (window_mean encode (sample_window a))),
      (''fps'', Number (measured_fps a)),
      (''frame_count'', Number (real (frame_counter a))),
      (''data_size_kb'', Number (last_payload_kb a)),
      (''get_frame_ms'', Number (get_frame_time a)),
      (''serialize_ms'', Number (serialize_time a))]"

subsection \<open>Vocabulary of the properties\<close>

text \<open>The button flags an input command carries.\<close>

fun input_flags :: "request \<Rightarrow> (bool \<times> bool) option" where
  "input_flags (send_mouse_input dX dY scrollDelta leftB rightB) = Some (leftB, rightB)"
| "input_flags q = None"


text \<open>Successive successful iterations of the render loop, each with its picture, its clock
  readings and its local constants.\<close>

definition frames_drawn :: "(draw_op \<times> clock \<times> loop_frame) list \<Rightarrow> state \<Rightarrow> state" where
  "frames_drawn frames s =
     foldl (\<lambda>s (drawing, clk, lf). renderLoop_settled (Inr drawing) clk lf s) s frames"

definition samples_of :: "(draw_op \<times> clock \<times> loop_frame) list \<Rightarrow> FrontendPerf list" where
  "samples_of frames = map (\<lambda>(drawing, clk, lf). loop_sample clk lf) frames"

text \<open>Frames whose call took 0, 1, 2, ... milliseconds, for examples.\<close>

definition example_frames :: "nat \<Rightarrow> (draw_op \<times> clock \<times> loop_frame) list" where
  "example_frames n =
     map (\<lambda>k. (drawImage (ImageBitmap 1 1 []) 0 0,
               \<lparr>callEnd = real k, imageStart = 0, imageEnd = 0, drawStart = 0, drawEnd = 0,
                loopEnd = 0, fpsNow = 0, dateNow = 0\<rparr>,
               \<lparr>loopStart = 0, callStart = 0\<rparr>)) [0..<n]"

text \<open>The requests that poll the backend: frames and statistics.\<close>

definition polls :: "request list \<Rightarrow> request list" where
  "polls qs = filter (\<lambda>q. q = fetch_frame \<or> q = get_frame \<or> q = get_performance_stats) qs"

fun is_Start :: "event \<Rightarrow> bool" where
  "is_Start (Start now) = True"
| "is_Start ev = False"

text \<open>Start; the first animation frame runs the render loop, which waits for its frame;
  stop and start again before the frame arrives; the frame arrives.\<close>

definition restart_trace :: "event list" where
  "restart_trace =
     [Start 0, AnimationFrame 1 16 17, Stop, Start 20,
      FrameSettled 0 (Fetched (Inr \<lparr>status = 200, body = Inr [255, 216, 255]\<rparr>))
        \<lparr>callEnd = 30, imageStart = 30, imageEnd = 32, drawStart = 32, drawEnd = 33,
         loopEnd = 33, fpsNow = 33, dateNow = 0\<rparr>]"

text \<open>The arithmetic mean of one metric over a window.\<close>

definition mean :: "(FrontendPerf \<Rightarrow> number) \<Rightarrow> FrontendPerf list \<Rightarrow> number" where
  "mean key window = sum_list (map key window) / real (length window)"

section \<open>Properties\<close>

subsection \<open>Auxiliary facts\<close>

lemmas handler_defs =
  startRendering_def stopRendering_def renderLoop_def renderLoop_settled_def schedule_next_def
  frame_drawn_def frame_failed_def store_sample_def updateFps_def updateBackendStats_def
  updateBackendStats_settled_def requestAnimationFrame_def cancelAnimationFrame_def
  setInterval_def clearInterval_def sendMouseInput_settled_def
  handleMouseDown_def handleMouseUp_def handleMouseMove_def handleWheel_def

lemma sendMouseInput_fields [simp]:
  "requests (sendMouseInput dX dY sd l r s) = requests s @ [send_mouse_input dX dY sd l r]"
  "mouseState (sendMouseInput dX dY sd l r s) = mouseState s"
  by (simp_all add: sendMouseInput_def)

text \<open>Whatever the event, the component sends at most one request, and an input command
  among them carries the button flags as \<open>mouseState\<close> holds them after the handler.\<close>

lemma flags_current:
  "requests (step part_000 dec ev s) = requests s \<or>
   (\<exists>q. requests (step part_000 dec ev s) = requests s @ [q] \<and>
        (input_flags q = None \<or>
         input_flags q = Some (leftButton (mouseState (step part_000 dec ev s)),
                               rightButton (mouseState (step part_000 dec ev s)))))"
  by (cases ev) (auto simp add: handler_defs Let_def split: option.split sum.split prod.split)

text \<open>The record the component starts with has the fields of its interface
  \<open>PerformanceStats\<close>; the record of the stats call as the specification names its fields
  has not (\<open>fps\<close>, \<open>get_frame_ms\<close> and \<open>serialize_ms\<close> stand where the interface has
  \<open>bevy_fps\<close>, \<open>tauri_get_frame_ms\<close> and \<open>tauri_serialize_ms\<close>); a settled stats call
  stores whatever record it gets.\<close>

lemma initial_backendStats_conforms:
  "conforms PerformanceStats (backendStats (initial_state cv now))"
  by (simp add: conforms_def PerformanceStats_def initial_state_def)

lemma stats_call_not_PerformanceStats: "\<not> conforms PerformanceStats (stats_call a)"
  by (simp add: conforms_def stats_call_def PerformanceStats_def)

lemma stats_call_stored:
  "0 < statsPending s \<Longrightarrow>
   backendStats (step rv dec (StatsSettled (Inr (stats_call a))) s) = stats_call a"
  by (simp add: updateBackendStats_settled_def)

lemma screen_schedule_next [simp]: "screen (schedule_next s) = screen s"
  by (simp add: schedule_next_def requestAnimationFrame_def)

lemma screen_store_sample [simp]: "screen (store_sample x s) = screen s"
  by (simp add: store_sample_def Let_def)

lemma screen_updateFps [simp]: "screen (updateFps now s) = screen s"
  by (simp add: updateFps_def Let_def)

lemma screen_frame_drawn [simp]: "screen (frame_drawn d clk lf s) = screen s @ [d]"
  by (simp add: frame_drawn_def Let_def)

lemma screen_frame_failed [simp]: "screen (frame_failed e now s) = screen s"
  by (simp add: frame_failed_def)

lemma screen_renderLoop_settled:
  "screen (renderLoop_settled result clk lf s) =
     (case result of Inr d \<Rightarrow> screen s @ [d] | Inl e \<Rightarrow> screen s)"
  by (simp add: renderLoop_settled_def split: sum.split)

lemma errorMessage_settled_drawn: "errorMessage (renderLoop_settled (Inr d) clk lf s) = []"
  by (simp add: renderLoop_settled_def frame_drawn_def schedule_next_def requestAnimationFrame_def
      Let_def split: prod.split)

text \<open>The copying loop gives the character codes of the decoded string, one byte each.\<close>

lemma length_clamped_store [simp]: "length (clamped_store bytes i v) = length bytes"
  by (simp add: clamped_store_def)

lemma copy_char_codes_eq:
  "length bytes = length bs \<Longrightarrow>
   copy_char_codes bs i bytes = take i bytes @ map of_char (drop i bs)"
proof (induction bs i bytes rule: copy_char_codes.induct)
  case (1 bs i bytes)
  show ?case
  proof (cases "i < length bs")
    case True
    let ?v = "of_char (bs ! i) :: nat"
    have "?v \<le> 255" using nat_of_char_less_256 [of "bs ! i"] by linarith
    then have v: "min ?v 255 = ?v" by (rule min_absorb1)
    have "copy_char_codes bs i bytes = copy_char_codes bs (i + 1) (clamped_store bytes i ?v)"
      using True by simp
    also have "\<dots> = take (i + 1) (clamped_store bytes i ?v) @ map of_char (drop (i + 1) bs)"
      using "1.IH" [OF True] "1.prems" by simp
    also have "take (i + 1) (clamped_store bytes i ?v) = take i bytes @ [?v]"
      using True "1.prems" v by (simp add: clamped_store_def take_Suc_conv_app_nth)
    also have "(take i bytes @ [?v]) @ map of_char (drop (i + 1) bs) =
               take i bytes @ map of_char (drop i bs)"
      using True by (simp add: Cons_nth_drop_Suc [symmetric])
    finally show ?thesis .
  next
    case False
    with "1.prems" show ?thesis by simp
  qed
qed


lemma decoded_bytes_eq: "decoded_bytes bs = map of_char bs"
  unfolding decoded_bytes_def by (subst copy_char_codes_eq) simp_all

lemma unsigned_long_id: "0 \<le> x \<Longrightarrow> x < 2 ^ 32 \<Longrightarrow> int (unsigned_long x) = x"
  by (simp add: unsigned_long_def)


lemma new_ImageData_built:
  assumes "0 \<le> w" "w < 2 ^ 32" "0 \<le> h" "h < 2 ^ 32"
  shows "(\<exists>img. new_ImageData bytes w h = Inr img) \<longleftrightarrow>
           bytes \<noteq> [] \<and> int (length bytes) = w * h * 4"
proof -
  define sw where "sw = unsigned_long w"
  define sh where "sh = unsigned_long h"
  define n where "n = length bytes"
  have w: "w = int sw" and h: "h = int sh"
    using assms by (simp_all add: sw_def sh_def unsigned_long_id)
  have "(\<exists>img. new_ImageData bytes w h = Inr img) \<longleftrightarrow>
        n \<noteq> 0 \<and> n mod 4 = 0 \<and> sw \<noteq> 0 \<and> (n div 4) mod sw = 0 \<and> sh = (n div 4) div sw"
    by (auto simp add: new_ImageData_def Let_def sw_def sh_def n_def)
  also have "\<dots> \<longleftrightarrow> n \<noteq> 0 \<and> n = sw * sh * 4"
  proof
    assume a: "n \<noteq> 0 \<and> n mod 4 = 0 \<and> sw \<noteq> 0 \<and> (n div 4) mod sw = 0 \<and> sh = (n div 4) div sw"
    have "(n div 4) * 4 = n"
      using a div_mult_mod_eq [of n 4] by simp
    moreover have "sw * sh = n div 4"
      using a div_mult_mod_eq [of "n div 4" sw] by (simp add: mult.commute)
    ultimately have "n = sw * sh * 4" by (simp only:)
    with a show "n \<noteq> 0 \<and> n = sw * sh * 4" by (simp only: simp_thms)
  next
    assume b: "n \<noteq> 0 \<and> n = sw * sh * 4"
    then have nz: "n \<noteq> 0" and eq: "n = sw * sh * 4" and pos: "sw \<noteq> 0" by auto
    have m4: "n mod 4 = 0" by (simp add: eq)
    have d: "n div 4 = sw * sh" by (simp add: eq)
    have ms: "(n div 4) mod sw = 0" by (simp add: d)
    have ds: "sh = (n div 4) div sw" using pos by (simp add: d)
    from nz m4 pos ms ds
    show "n \<noteq> 0 \<and> n mod 4 = 0 \<and> sw \<noteq> 0 \<and> (n div 4) mod sw = 0 \<and> sh = (n div 4) div sw"
      by (intro conjI)
  qed
  also have "\<dots> \<longleftrightarrow> bytes \<noteq> [] \<and> int (length bytes) = w * h * 4"
  proof -
    have "int (sw * sh * 4) = w * h * 4" by (simp add: w h)
    then have conv: "n = sw * sh * 4 \<longleftrightarrow> int n = w * h * 4"
      using of_nat_eq_iff [of n "sw * sh * 4", where ?'a = int] by (simp only:)
    have nz: "n \<noteq> 0 \<longleftrightarrow> bytes \<noteq> []" by (simp add: n_def)
    show ?thesis by (simp only: conv nz) (simp only: n_def)
  qed
  finally show ?thesis .
qed

lemma new_ImageData_result:
  "new_ImageData bytes w h = Inr img \<Longrightarrow> img = ImageData bytes (unsigned_long w) (unsigned_long h)"
  by (simp add: new_ImageData_def Let_def split: if_splits)

lemma structured_frame_decoded:
  "atob (data resp) = Inr binaryString \<Longrightarrow>
   structured_frame (Inr resp) =
     (case new_ImageData (decoded_bytes binaryString) (width resp) (height resp) of
        Inl error \<Rightarrow> Inl error
      | Inr imageData \<Rightarrow> Inr (putImageData imageData 0 0))"
  by (simp add: structured_frame_def)

text \<open>The structured path gets an image exactly when the decoded bytes are not empty and
  their number is \<open>width * height * 4\<close>; any other number ends in the error branch.\<close>

lemma structured_frame_built_iff:
  assumes "atob (data resp) = Inr binaryString"
    and "0 \<le> width resp" and "width resp < 2 ^ 32"
    and "0 \<le> height resp" and "height resp < 2 ^ 32"
  shows "(\<exists>drawing. structured_frame (Inr resp) = Inr drawing) \<longleftrightarrow>
           binaryString \<noteq> [] \<and>
           int (length (decoded_bytes binaryString)) = width resp * height resp * 4"
proof -
  let ?bytes = "decoded_bytes binaryString"
  note sf = structured_frame_decoded [OF assms(1)]
  have "(\<exists>drawing. structured_frame (Inr resp) = Inr drawing) \<longleftrightarrow>
      (\<exists>img. new_ImageData ?bytes (width resp) (height resp) = Inr img)"
    by (simp add: sf split: sum.split)
  also have "\<dots> \<longleftrightarrow> ?bytes \<noteq> [] \<and> int (length ?bytes) = width resp * height resp * 4"
    by (rule new_ImageData_built [OF assms(2-5)])
  also have "?bytes \<noteq> [] \<longleftrightarrow> binaryString \<noteq> []"
    by (simp add: decoded_bytes_eq)
  finally show ?thesis .
qed

text \<open>The window of performance samples.\<close>

lemma foldl_add_sum_list:
  "foldl (\<lambda>sum s. sum + key s) (a::real) xs = a + sum_list (map key xs)"
  by (induction xs arbitrary: a) simp_all

lemma avg_mean: "avg key window = mean key window"
  by (simp add: avg_def mean_def foldl_add_sum_list)

lemma samples_store_sample:
  "frontendPerfSamples (store_sample x s) =
     (if 30 \<le> length (frontendPerfSamples s) then tl (frontendPerfSamples s @ [x])
      else frontendPerfSamples s @ [x])"
  by (simp add: store_sample_def Let_def)

lemma samples_store_sample_nonempty: "frontendPerfSamples (store_sample x s) \<noteq> []"
  by (cases "frontendPerfSamples s") (simp_all add: samples_store_sample)

lemma tl_drop1: "tl xs = drop 1 xs"
  by (cases xs) simp_all

lemma tl_snoc_long: "30 \<le> length w \<Longrightarrow> tl (w @ [x]) = tl w @ [x]"
  by (cases w) simp_all

lemma stats_store_sample:
  "frontendStats (store_sample x s) =
     \<lparr>tauri_call_ms = mean tauri_call_ms (frontendPerfSamples (store_sample x s)),
      image_create_ms = mean image_create_ms (frontendPerfSamples (store_sample x s)),
      canvas_draw_ms = mean canvas_draw_ms (frontendPerfSamples (store_sample x s)),
      total_loop_ms = mean total_loop_ms (frontendPerfSamples (store_sample x s)),
      frontend_fps = fps s\<rparr>"
proof (cases "30 \<le> length (frontendPerfSamples s)")
  case True
  then show ?thesis
    by (simp add: store_sample_def Let_def avg_mean tl_snoc_long)
next
  case False
  then show ?thesis
    by (simp add: store_sample_def Let_def avg_mean)
qed

lemma samples_store_sample_le:
  "length (frontendPerfSamples s) \<le> 30 \<Longrightarrow> length (frontendPerfSamples (store_sample x s)) \<le> 30"
  by (simp add: samples_store_sample)

lemma samples_store_sample_drop:
  assumes le: "length (frontendPerfSamples s) \<le> 30"
  shows "frontendPerfSamples (store_sample x s) =
     drop (length (frontendPerfSamples s @ [x]) - 30) (frontendPerfSamples s @ [x])"
proof (cases "length (frontendPerfSamples s) = 30")
  case True
  have "tl (frontendPerfSamples s @ [x]) = drop 1 (frontendPerfSamples s @ [x])"
    by (rule tl_drop1)
  with True show ?thesis by (simp add: samples_store_sample)
next
  case False
  with le have "length (frontendPerfSamples s) < 30" by simp
  then show ?thesis by (simp add: samples_store_sample)
qed

lemma samples_updateFps [simp]: "frontendPerfSamples (updateFps now s) = frontendPerfSamples s"
  and stats_updateFps [simp]: "frontendStats (updateFps now s) = frontendStats s"
  by (simp_all add: updateFps_def Let_def)

lemma samples_schedule_next [simp]: "frontendPerfSamples (schedule_next s) = frontendPerfSamples s"
  and stats_schedule_next [simp]: "frontendStats (schedule_next s) = frontendStats s"
  by (simp_all add: schedule_next_def requestAnimationFrame_def)

lemma samples_frame_failed [simp]: "frontendPerfSamples (frame_failed e now s) = frontendPerfSamples s"
  by (simp add: frame_failed_def)

lemma store_sample_screen:
  "frontendPerfSamples (store_sample x (s\<lparr>screen := sc\<rparr>)) = frontendPerfSamples (store_sample x s)"
  "frontendStats (store_sample x (s\<lparr>screen := sc\<rparr>)) = frontendStats (store_sample x s)"
  by (simp_all add: store_sample_def Let_def)

lemma samples_settled_drawn:
  "frontendPerfSamples (renderLoop_settled (Inr d) clk lf s) =
     frontendPerfSamples (store_sample (loop_sample clk lf) s)"
  by (simp add: renderLoop_settled_def frame_drawn_def Let_def store_sample_screen)

lemma stats_settled_drawn:
  "frontendStats (renderLoop_settled (Inr d) clk lf s) =
     frontendStats (store_sample (loop_sample clk lf) s)"
  by (simp add: renderLoop_settled_def frame_drawn_def Let_def store_sample_screen)

lemma samples_settled:
  "frontendPerfSamples (renderLoop_settled result clk lf s) =
     (case result of
        Inr d \<Rightarrow> frontendPerfSamples (store_sample (loop_sample clk lf) s)
      | Inl e \<Rightarrow> frontendPerfSamples s)"
  by (cases result) (simp_all add: samples_settled_drawn, simp add: renderLoop_settled_def)

lemma frames_drawn_snoc:
  "frames_drawn (frames @ [(d, clk, lf)]) s = renderLoop_settled (Inr d) clk lf (frames_drawn frames s)"
  by (simp add: frames_drawn_def)

lemma samples_frames_drawn:
  "length (frontendPerfSamples s) \<le> 30 \<Longrightarrow>
   frontendPerfSamples (frames_drawn frames s) =
     drop (length (frontendPerfSamples s @ samples_of frames) - 30)
       (frontendPerfSamples s @ samples_of frames)"
proof (induction frames rule: rev_induct)
  case Nil
  then show ?case by (simp add: frames_drawn_def samples_of_def)
next
  case (snoc f frames)
  obtain d clk lf where f: "f = (d, clk, lf)" by (cases f)
  let ?w = "frontendPerfSamples s @ samples_of frames"
  let ?s = "frames_drawn frames s"
  have ih: "frontendPerfSamples ?s = drop (length ?w - 30) ?w"
    using snoc by simp
  then have le: "length (frontendPerfSamples ?s) \<le> 30" by simp
  have so: "samples_of (frames @ [f]) = samples_of frames @ [loop_sample clk lf]"
    by (simp add: samples_of_def f)
  have "frontendPerfSamples (frames_drawn (frames @ [f]) s) =
        frontendPerfSamples (store_sample (loop_sample clk lf) ?s)"
    by (simp add: f frames_drawn_snoc samples_settled_drawn)
  also have "\<dots> = drop (length (frontendPerfSamples ?s @ [loop_sample clk lf]) - 30)
                     (frontendPerfSamples ?s @ [loop_sample clk lf])"
    by (rule samples_store_sample_drop [OF le])
  also have "frontendPerfSamples ?s @ [loop_sample clk lf] =
             drop (length ?w - 30) (?w @ [loop_sample clk lf])"
    by (simp add: ih)
  also have "drop (length (drop (length ?w - 30) (?w @ [loop_sample clk lf])) - 30)
               (drop (length ?w - 30) (?w @ [loop_sample clk lf])) =
             drop (length (?w @ [loop_sample clk lf]) - 30) (?w @ [loop_sample clk lf])"
    by (simp del: append_assoc drop_append add: drop_drop) (rule arg_cong [where f = "\<lambda>k. drop k _"], simp)
  finally show ?case by (simp add: so)
qed

lemma samples_other_handlers [simp]:
  "frontendPerfSamples (startRendering now s) = frontendPerfSamples s"
  "frontendPerfSamples (stopRendering s) = frontendPerfSamples s"
  "frontendPerfSamples (renderLoop rv t0 t1 s) = frontendPerfSamples s"
  "frontendPerfSamples (updateBackendStats s) = frontendPerfSamples s"
  "frontendPerfSamples (updateBackendStats_settled o1 s) = frontendPerfSamples s"
  "frontendPerfSamples (handleMouseDown ev s) = frontendPerfSamples s"
  "frontendPerfSamples (handleMouseUp ev s) = frontendPerfSamples s"
  "frontendPerfSamples (handleMouseMove ev s) = frontendPerfSamples s"
  "frontendPerfSamples (handleWheel wev s) = frontendPerfSamples s"
  "frontendPerfSamples (snd (sendMouseInput_settled o2 s)) = frontendPerfSamples s"
  by (simp_all add: startRendering_def stopRendering_def renderLoop_def updateBackendStats_def
      updateBackendStats_settled_def handleMouseDown_def handleMouseUp_def handleMouseMove_def
      handleWheel_def sendMouseInput_settled_def sendMouseInput_def requestAnimationFrame_def
      cancelAnimationFrame_def setInterval_def clearInterval_def Let_def
      split: option.split sum.split prod.split)

lemma step_samples:
  "frontendPerfSamples (step rv dec ev s) = frontendPerfSamples s \<or>
   (\<exists>x. frontendPerfSamples (step rv dec ev s) = frontendPerfSamples (store_sample x s))"
proof (cases ev)
  case (FrameSettled i outcome clk)
  show ?thesis
  proof (cases "i < length (suspended s)")
    case True
    show ?thesis
    proof (cases "frame_result rv dec outcome")
      case None
      with True FrameSettled show ?thesis by simp
    next
      case (Some result)
      show ?thesis
      proof (cases result)
        case (Inl e)
        with Some True FrameSettled show ?thesis by (simp add: samples_settled)
      next
        case (Inr d)
        with Some True FrameSettled
        have "frontendPerfSamples (step rv dec ev s) =
              frontendPerfSamples (store_sample (loop_sample clk (suspended s ! i)) s)"
          by (simp add: samples_settled samples_store_sample)
        then show ?thesis by blast
      qed
    qed
  next
    case False
    with FrameSettled show ?thesis by simp
  qed
qed simp_all

lemma step_samples_le:
  "length (frontendPerfSamples s) \<le> 30 \<Longrightarrow> length (frontendPerfSamples (step rv dec ev s)) \<le> 30"
  using step_samples [of rv dec ev s] samples_store_sample_le [of s] by auto

lemma run_snoc: "run rv dec (evs @ [ev]) s = step rv dec ev (run rv dec evs s)"
  by (simp add: run_def)

lemma run_samples_le:
  "length (frontendPerfSamples s) \<le> 30 \<Longrightarrow> length (frontendPerfSamples (run rv dec evs s)) \<le> 30"
proof (induction evs rule: rev_induct)
  case Nil
  then show ?case by (simp add: run_def)
next
  case (snoc ev evs)
  then show ?case by (simp add: run_snoc step_samples_le)
qed

lemma stats_frames_drawn:
  assumes "frames \<noteq> []"
  shows "frontendStats (frames_drawn frames s) =
     \<lparr>tauri_call_ms = mean tauri_call_ms (frontendPerfSamples (frames_drawn frames s)),
      image_create_ms = mean image_create_ms (frontendPerfSamples (frames_drawn frames s)),
      canvas_draw_ms = mean canvas_draw_ms (frontendPerfSamples (frames_drawn frames s)),
      total_loop_ms = mean total_loop_ms (frontendPerfSamples (frames_drawn frames s)),
      frontend_fps = fps (frames_drawn (butlast frames) s)\<rparr>"
proof -
  obtain d clk lf where l: "last frames = (d, clk, lf)" by (cases "last frames")
  with assms have fr: "frames = butlast frames @ [(d, clk, lf)]" by (metis append_butlast_last_id)
  have "frames_drawn frames s = renderLoop_settled (Inr d) clk lf (frames_drawn (butlast frames) s)"
    by (subst fr) (rule frames_drawn_snoc)
  then show ?thesis
    by (simp add: stats_settled_drawn samples_settled_drawn stats_store_sample)
qed

text \<open>Start, stop and the stats interval.\<close>

lemma startRendering_idempotent: "isRendering s \<Longrightarrow> startRendering now s = s"
  by (simp add: startRendering_def)

lemma stopRendering_complete:
  "\<not> isRendering (stopRendering s) \<and>
   animationId (stopRendering s) = None \<and>
   statsInterval (stopRendering s) = None \<and>
   (\<forall>h. animationId s = Some h \<longrightarrow> h \<notin> set (rafPending (stopRendering s))) \<and>
   (\<forall>t. statsInterval s = Some t \<longrightarrow> t \<notin> set (intervals (stopRendering s)))"
  by (auto simp add: stopRendering_def cancelAnimationFrame_def clearInterval_def Let_def
      split: option.split)

lemma step_interval_inv:
  assumes "intervals s = (case statsInterval s of None \<Rightarrow> [] | Some t \<Rightarrow> [t])"
    and "isRendering s \<longleftrightarrow> statsInterval s \<noteq> None"
  shows "intervals (step rv dec ev s) =
           (case statsInterval (step rv dec ev s) of None \<Rightarrow> [] | Some t \<Rightarrow> [t]) \<and>
         (isRendering (step rv dec ev s) \<longleftrightarrow> statsInterval (step rv dec ev s) \<noteq> None)"
  using assms
  by (cases ev)
     (auto simp add: handler_defs sendMouseInput_def Let_def
           split: option.splits sum.splits prod.splits)

lemma one_stats_interval:
  "intervals (run rv dec evs (initial_state cv now)) =
     (case statsInterval (run rv dec evs (initial_state cv now)) of None \<Rightarrow> [] | Some t \<Rightarrow> [t]) \<and>
   (isRendering (run rv dec evs (initial_state cv now)) \<longleftrightarrow>
      statsInterval (run rv dec evs (initial_state cv now)) \<noteq> None)"
proof (induction evs rule: rev_induct)
  case Nil
  show ?case by (simp add: run_def initial_state_def)
next
  case (snoc ev evs)
  then show ?case
    unfolding run_snoc by (intro step_interval_inv) simp_all
qed

lemma step_stopped:
  assumes "\<not> isRendering s" and "intervals s = []" and "\<not> is_Start ev"
  shows "\<not> isRendering (step rv dec ev s) \<and> intervals (step rv dec ev s) = [] \<and>
         polls (requests (step rv dec ev s)) = polls (requests s)"
  using assms
  by (cases ev)
     (auto simp add: handler_defs sendMouseInput_def polls_def Let_def
           split: option.splits sum.splits prod.splits)

lemma no_polling_while_stopped:
  assumes "\<not> isRendering s" and "intervals s = []" and "list_all (\<lambda>ev. \<not> is_Start ev) evs"
  shows "\<not> isRendering (run rv dec evs s) \<and> intervals (run rv dec evs s) = [] \<and>
         polls (requests (run rv dec evs s)) = polls (requests s)"
  using assms(3)
proof (induction evs rule: rev_induct)
  case Nil
  with assms show ?case by (simp add: run_def)
next
  case (snoc ev evs)
  then have ih: "\<not> isRendering (run rv dec evs s)" "intervals (run rv dec evs s) = []"
    "polls (requests (run rv dec evs s)) = polls (requests s)" and ev: "\<not> is_Start ev"
    by simp_all
  from step_stopped [OF ih(1) ih(2) ev, of rv dec] ih(3)
  show ?case by (simp add: run_snoc)
qed

subsection \<open>The claims\<close>

text \<open>C1. The binary path never applies a Base64 step to the pixel data. Whatever the
  decoder \<^verbatim>\<open>createImageBitmap\<close> of the browser is: when a suspended render loop of
  part_000 gets a successful response whose body reads as \<open>bytes\<close>, the picture it draws
  is the decoder's result on exactly these bytes, drawn at the origin, and it draws
  nothing when the decoder rejects them.\<close>

theorem C1_binary_frame_drawn_from_body:
  assumes "i < length (suspended s)" and "ok resp" and "body resp = Inr bytes"
  shows "screen (step part_000 createImageBitmap (FrameSettled i (Fetched (Inr resp)) clk) s) =
           (case createImageBitmap bytes of
              Inr imageBitmap \<Rightarrow> screen s @ [drawImage imageBitmap 0 0]
            | Inl error \<Rightarrow> screen s)"
  using assms
  by (simp add: screen_renderLoop_settled binary_frame_def split: sum.split)

theorem C1_binary_frame_drawn_from_body_witness:
  "0 < length (suspended (run part_000 (\<lambda>blob. Inr (ImageBitmap 1 1 blob))
          [Start 0, AnimationFrame 1 16 17] (initial_state (Some \<lparr>context2d = True\<rparr>) 0))) \<and>
   ok \<lparr>status = 200, body = Inr [255, 216, 255]\<rparr> \<and>
   screen (step part_000 (\<lambda>blob. Inr (ImageBitmap 1 1 blob))
      (FrameSettled 0 (Fetched (Inr \<lparr>status = 200, body = Inr [255, 216, 255]\<rparr>))
         \<lparr>callEnd = 20, imageStart = 20, imageEnd = 22, drawStart = 22, drawEnd = 23,
          loopEnd = 23, fpsNow = 23, dateNow = 0\<rparr>)
      (run part_000 (\<lambda>blob. Inr (ImageBitmap 1 1 blob))
         [Start 0, AnimationFrame 1 16 17] (initial_state (Some \<lparr>context2d = True\<rparr>) 0))) =
     [drawImage (ImageBitmap 1 1 [255, 216, 255]) 0 0]"
proof -
  let ?dec = "\<lambda>blob. Inr (ImageBitmap 1 1 blob) :: js_error + ImageBitmap"
  let ?s = "run part_000 ?dec [Start 0, AnimationFrame 1 16 17]
              (initial_state (Some \<lparr>context2d = True\<rparr>) 0)"
  let ?resp = "\<lparr>status = 200, body = Inr [255, 216, 255]\<rparr>"
  have h1: "0 < length (suspended ?s)"
    by (simp add: run_def initial_state_def handler_defs Let_def)
  have h2: "ok ?resp" by (simp add: ok_def)
  have h3: "body ?resp = Inr [255, 216, 255]" by simp
  have scr: "screen ?s = []"
    by (simp add: run_def initial_state_def handler_defs Let_def)
  from C1_binary_frame_drawn_from_body [OF h1 h2 h3, of ?dec] scr h1 h2
  show ?thesis by simp
qed

text \<open>C2. A frame response is the record \<open>FrameResponse\<close> of \<open>data\<close> (Base64 text),
  \<open>width\<close> and \<open>height\<close>. When a suspended render loop of App.vue gets a response whose
  \<open>data\<close> is the Base64 text of \<open>width * height * 4\<close> bytes (width and height positive
  and in the range of an unsigned 32-bit integer), the component decodes \<open>data\<close> into
  exactly these bytes, one per character of the decoded string, \<open>width * height * 4\<close> of
  them, builds the image of this width and height from them, puts it on the canvas at the
  origin, clears the error message and counts the frame.\<close>

theorem C2_structured_frame_decoded_and_drawn:
  assumes "i < length (suspended s)"
    and "atob (data resp) = Inr binaryString"
    and "0 < width resp" and "width resp < 2 ^ 32"
    and "0 < height resp" and "height resp < 2 ^ 32"
    and "int (length binaryString) = width resp * height resp * 4"
  shows "decoded_bytes binaryString = map of_char binaryString \<and>
         int (length (decoded_bytes binaryString)) = width resp * height resp * 4 \<and>
         structured_frame (Inr resp) =
           Inr (putImageData (ImageData (decoded_bytes binaryString)
                  (nat (width resp)) (nat (height resp))) 0 0) \<and>
         screen (step App_vue dec (FrameSettled i (Invoked (Inr resp)) clk) s) =
           screen s @ [putImageData (ImageData (decoded_bytes binaryString)
                         (nat (width resp)) (nat (height resp))) 0 0] \<and>
         errorMessage (step App_vue dec (FrameSettled i (Invoked (Inr resp)) clk) s) = [] \<and>
         frameCount (step App_vue dec (FrameSettled i (Invoked (Inr resp)) clk) s) = frameCount s + 1"
proof -
  let ?bytes = "decoded_bytes binaryString"
  let ?img = "ImageData ?bytes (nat (width resp)) (nat (height resp))"
  have bytes: "?bytes = map of_char binaryString" by (rule decoded_bytes_eq)
  then have len: "int (length ?bytes) = width resp * height resp * 4"
    using assms(7) by simp
  have "0 < width resp * height resp * 4" using assms(3,5) by simp
  with len have ne: "?bytes \<noteq> []" by auto
  have w: "0 \<le> width resp" and h: "0 \<le> height resp" using assms(3,5) by simp_all
  from new_ImageData_built [OF w assms(4) h assms(6), of ?bytes] ne len
  obtain img where img: "new_ImageData ?bytes (width resp) (height resp) = Inr img" by blast
  have ul: "unsigned_long (width resp) = nat (width resp)"
    "unsigned_long (height resp) = nat (height resp)"
    using assms(3-6) by (simp_all add: unsigned_long_def)
  from new_ImageData_result [OF img] ul have "img = ?img" by simp
  with img have built: "new_ImageData ?bytes (width resp) (height resp) = Inr ?img" by simp
  have sf: "structured_frame (Inr resp) = Inr (putImageData ?img 0 0)"
    by (simp add: structured_frame_decoded [OF assms(2)] built)
  have st: "step App_vue dec (FrameSettled i (Invoked (Inr resp)) clk) s =
      renderLoop_settled (Inr (putImageData ?img 0 0)) clk (suspended s ! i)
        (s\<lparr>suspended := take i (suspended s) @ drop (i + 1) (suspended s)\<rparr>)"
    using assms(1) by (simp add: sf)
  have scr: "screen (step App_vue dec (FrameSettled i (Invoked (Inr resp)) clk) s) =
      screen s @ [putImageData ?img 0 0]"
    unfolding st by (simp add: screen_renderLoop_settled)
  have err: "errorMessage (step App_vue dec (FrameSettled i (Invoked (Inr resp)) clk) s) = []"
    unfolding st by (rule errorMessage_settled_drawn)
  have cnt: "frameCount (step App_vue dec (FrameSettled i (Invoked (Inr resp)) clk) s) = frameCount s + 1"
    unfolding st
    by (simp add: renderLoop_settled_def frame_drawn_def schedule_next_def requestAnimationFrame_def
        store_sample_def updateFps_def Let_def split: prod.split)
  from bytes len sf scr err cnt show ?thesis by (intro conjI)
qed

theorem C2_structured_frame_decoded_and_drawn_witness:
  "0 < length (suspended (run App_vue (\<lambda>blob. Inl (JsError [] []))
          [Start 0, AnimationFrame 1 16 17] (initial_state (Some \<lparr>context2d = True\<rparr>) 0))) \<and>
   atob (data \<lparr>data = ''/wAA/w=='', width = 1, height = 1\<rparr>) =
     Inr [CHR 0xFF, CHR 0x00, CHR 0x00, CHR 0xFF] \<and>
   decoded_bytes [CHR 0xFF, CHR 0x00, CHR 0x00, CHR 0xFF] = [255, 0, 0, 255] \<and>
   screen (step App_vue (\<lambda>blob. Inl (JsError [] []))
      (FrameSettled 0 (Invoked (Inr \<lparr>data = ''/wAA/w=='', width = 1, height = 1\<rparr>))
         \<lparr>callEnd = 20, imageStart = 20, imageEnd = 22, drawStart = 22, drawEnd = 23,
          loopEnd = 23, fpsNow = 23, dateNow = 0\<rparr>)
      (run App_vue (\<lambda>blob. Inl (JsError [] []))
         [Start 0, AnimationFrame 1 16 17] (initial_state (Some \<lparr>context2d = True\<rparr>) 0))) =
     [putImageData (ImageData [255, 0, 0, 255] 1 1) 0 0]"
proof -
  let ?dec = "\<lambda>blob. Inl (JsError [] []) :: js_error + ImageBitmap"
  let ?resp = "\<lparr>data = ''/wAA/w=='', width = 1, height = 1\<rparr>"
  let ?bs = "[CHR 0xFF, CHR 0x00, CHR 0x00, CHR 0xFF]"
  let ?clk = "\<lparr>callEnd = 20, imageStart = 20, imageEnd = 22, drawStart = 22, drawEnd = 23,
          loopEnd = 23, fpsNow = 23, dateNow = 0\<rparr>"
  define s0 where "s0 = run App_vue ?dec [Start 0, AnimationFrame 1 16 17]
      (initial_state (Some \<lparr>context2d = True\<rparr>) 0)"
  have h1: "0 < length (suspended s0)"
    by (simp add: s0_def run_def initial_state_def handler_defs Let_def)
  have scr0: "screen s0 = []"
    by (simp add: s0_def run_def initial_state_def handler_defs Let_def)
  have h2: "atob (data ?resp) = Inr ?bs" by code_simp
  have b: "decoded_bytes ?bs = [255, 0, 0, 255]" by code_simp
  have h7: "int (length ?bs) = width ?resp * height ?resp * 4" by simp
  from C2_structured_frame_decoded_and_drawn [OF h1 h2 _ _ _ _ h7, of ?dec ?clk]
  have "screen (step App_vue ?dec (FrameSettled 0 (Invoked (Inr ?resp)) ?clk) s0) =
      screen s0 @ [putImageData (ImageData (decoded_bytes ?bs)
                         (nat (width ?resp)) (nat (height ?resp))) 0 0]"
    by simp
  then have "screen (step App_vue ?dec (FrameSettled 0 (Invoked (Inr ?resp)) ?clk) s0) =
      [putImageData (ImageData [255, 0, 0, 255] 1 1) 0 0]"
    by (simp only: scr0 b) simp
  with h1 h2 b show ?thesis unfolding s0_def by (intro conjI)
qed

text \<open>C3. The window of performance samples never holds more than 30 entries, in any
  state the component reaches. After more than 30 successful iterations of the render
  loop the window is exactly the last 30 samples, in order, and each of the four averaged
  metrics is the arithmetic mean over these 30. An insertion into a full window drops the
  oldest sample and appends the new one.\<close>

theorem C3_window_keeps_last_30:
  "length (frontendPerfSamples (run rv dec evs (initial_state cv now))) \<le> 30 \<and>
   (length (frontendPerfSamples s) \<le> 30 \<and> 30 < length frames \<longrightarrow>
      frontendPerfSamples (frames_drawn frames s) = drop (length frames - 30) (samples_of frames) \<and>
      length (frontendPerfSamples (frames_drawn frames s)) = 30 \<and>
      tauri_call_ms (frontendStats (frames_drawn frames s)) =
        mean tauri_call_ms (drop (length frames - 30) (samples_of frames)) \<and>
      image_create_ms (frontendStats (frames_drawn frames s)) =
        mean image_create_ms (drop (length frames - 30) (samples_of frames)) \<and>
      canvas_draw_ms (frontendStats (frames_drawn frames s)) =
        mean canvas_draw_ms (drop (length frames - 30) (samples_of frames)) \<and>
      total_loop_ms (frontendStats (frames_drawn frames s)) =
        mean total_loop_ms (drop (length frames - 30) (samples_of frames))) \<and>
   (length (frontendPerfSamples s) = 30 \<longrightarrow>
      frontendPerfSamples (renderLoop_settled (Inr d) clk lf s) =
        tl (frontendPerfSamples s) @ [loop_sample clk lf])"
proof (intro conjI impI)
  show "length (frontendPerfSamples (run rv dec evs (initial_state cv now))) \<le> 30"
    by (rule run_samples_le) (simp add: initial_state_def)
next
  assume "length (frontendPerfSamples s) = 30"
  then show "frontendPerfSamples (renderLoop_settled (Inr d) clk lf s) =
        tl (frontendPerfSamples s) @ [loop_sample clk lf]"
    by (simp add: samples_settled_drawn samples_store_sample tl_snoc_long)
next
  assume a: "length (frontendPerfSamples s) \<le> 30 \<and> 30 < length frames"
  then have ne: "frames \<noteq> []" by auto
  have len: "length (samples_of frames) = length frames" by (simp add: samples_of_def)
  from a have l1: "length (frontendPerfSamples s) \<le> 30" and l2: "30 < length frames"
    by simp_all
  from l2 have ar: "length (frontendPerfSamples s) + length frames - 30 - length (frontendPerfSamples s) =
      length frames - 30" "length (frontendPerfSamples s) \<le> length (frontendPerfSamples s) + length frames - 30"
    by simp_all
  have w: "frontendPerfSamples (frames_drawn frames s) =
      drop (length frames - 30) (samples_of frames)"
    by (simp add: samples_frames_drawn [OF l1] len ar)
  show "frontendPerfSamples (frames_drawn frames s) = drop (length frames - 30) (samples_of frames)"
    by (rule w)
  show "length (frontendPerfSamples (frames_drawn frames s)) = 30"
    using a by (simp add: w len)
  show "tauri_call_ms (frontendStats (frames_drawn frames s)) =
        mean tauri_call_ms (drop (length frames - 30) (samples_of frames))"
    by (simp add: stats_frames_drawn [OF ne] w)
  show "image_create_ms (frontendStats (frames_drawn frames s)) =
        mean image_create_ms (drop (length frames - 30) (samples_of frames))"
    by (simp add: stats_frames_drawn [OF ne] w)
  show "canvas_draw_ms (frontendStats (frames_drawn frames s)) =
        mean canvas_draw_ms (drop (length frames - 30) (samples_of frames))"
    by (simp add: stats_frames_drawn [OF ne] w)
  show "total_loop_ms (frontendStats (frames_drawn frames s)) =
        mean total_loop_ms (drop (length frames - 30) (samples_of frames))"
    by (simp add: stats_frames_drawn [OF ne] w)
qed

theorem C3_window_keeps_last_30_witness:
  "length (frontendPerfSamples (initial_state None 0)) \<le> 30 \<and>
   30 < length (example_frames 31) \<and>
   map tauri_call_ms (frontendPerfSamples (frames_drawn (example_frames 31) (initial_state None 0))) =
     map real [1..<31] \<and>
   tauri_call_ms (frontendStats (frames_drawn (example_frames 31) (initial_state None 0))) = 31 / 2"
proof -
  let ?s = "initial_state None 0"
  let ?f = "example_frames 31"
  have h1: "length (frontendPerfSamples ?s) \<le> 30" by (simp add: initial_state_def)
  have h2: "30 < length ?f" by (simp add: example_frames_def)
  have w: "map tauri_call_ms (drop (length ?f - 30) (samples_of ?f)) = map real [1..<31]"
    by (simp add: example_frames_def samples_of_def loop_sample_def drop_map comp_def)
  have m: "mean tauri_call_ms (drop (length ?f - 30) (samples_of ?f)) = 31 / 2"
    unfolding mean_def w by (simp add: example_frames_def samples_of_def upt_rec)
  from C3_window_keeps_last_30 [of App_vue "\<lambda>blob. Inl (JsError [] [])" "[]" None 0 ?s ?f] h1 h2
  have "frontendPerfSamples (frames_drawn ?f ?s) = drop (length ?f - 30) (samples_of ?f)"
    and "tauri_call_ms (frontendStats (frames_drawn ?f ?s)) =
           mean tauri_call_ms (drop (length ?f - 30) (samples_of ?f))"
    by blast+
  with w m h1 h2 show ?thesis by simp
qed

text \<open>C4. Button flags carry state, not edges. Releasing the left or the right button sends
  one input command with zero deltas, the flag of the released button cleared and the flag
  of the other button as it is held; and whatever the event, an input command that goes
  out carries the two flags as the component holds them after the handler.\<close>

theorem C4_button_flags_are_state:
  "(button event = 0 \<or> button event = 2 \<longrightarrow>
      requests (handleMouseUp event s) =
        requests s @ [send_mouse_input 0 0 0
           (button event \<noteq> 0 \<and> leftButton (mouseState s))
           (button event \<noteq> 2 \<and> rightButton (mouseState s))] \<and>
      leftButton (mouseState (handleMouseUp event s)) =
        (button event \<noteq> 0 \<and> leftButton (mouseState s)) \<and>
      rightButton (mouseState (handleMouseUp event s)) =
        (button event \<noteq> 2 \<and> rightButton (mouseState s))) \<and>
   (requests (step part_000 dec ev s) = requests s \<or>
    (\<exists>q. requests (step part_000 dec ev s) = requests s @ [q] \<and>
         (input_flags q = None \<or>
          input_flags q = Some (leftButton (mouseState (step part_000 dec ev s)),
                                rightButton (mouseState (step part_000 dec ev s))))))"
proof -
  have "button event = 0 \<or> button event = 2 \<longrightarrow>
      requests (handleMouseUp event s) =
        requests s @ [send_mouse_input 0 0 0
           (button event \<noteq> 0 \<and> leftButton (mouseState s))
           (button event \<noteq> 2 \<and> rightButton (mouseState s))] \<and>
      leftButton (mouseState (handleMouseUp event s)) =
        (button event \<noteq> 0 \<and> leftButton (mouseState s)) \<and>
      rightButton (mouseState (handleMouseUp event s)) =
        (button event \<noteq> 2 \<and> rightButton (mouseState s))"
    by (auto simp add: handleMouseUp_def Let_def)
  then show ?thesis using flags_current [of dec ev s] by (rule conjI)
qed

theorem C4_button_flags_are_state_witness:
  "button \<lparr>button = 0, clientX = 3, clientY = 4\<rparr> = 0 \<and>
   rightButton (mouseState
      (handleMouseDown \<lparr>button = 2, clientX = 1, clientY = 1\<rparr>
        (handleMouseDown \<lparr>button = 0, clientX = 0, clientY = 0\<rparr> (initial_state None 0)))) \<and>
   requests (handleMouseUp \<lparr>button = 0, clientX = 3, clientY = 4\<rparr>
      (handleMouseDown \<lparr>button = 2, clientX = 1, clientY = 1\<rparr>
        (handleMouseDown \<lparr>button = 0, clientX = 0, clientY = 0\<rparr> (initial_state None 0)))) =
     [send_mouse_input 0 0 0 False True]"
proof -
  let ?ev = "\<lparr>button = 0, clientX = 3, clientY = 4\<rparr>"
  let ?s = "handleMouseDown \<lparr>button = 2, clientX = 1, clientY = 1\<rparr>
        (handleMouseDown \<lparr>button = 0, clientX = 0, clientY = 0\<rparr> (initial_state None 0))"
  have h: "button ?ev = 0 \<or> button ?ev = 2" by simp
  have st: "rightButton (mouseState ?s)" "leftButton (mouseState ?s)" "requests ?s = []"
    by (simp_all add: handleMouseDown_def initial_state_def Let_def)
  from C4_button_flags_are_state [of ?ev ?s] h
  have "requests (handleMouseUp ?ev ?s) =
        requests ?s @ [send_mouse_input 0 0 0
           (button ?ev \<noteq> 0 \<and> leftButton (mouseState ?s))
           (button ?ev \<noteq> 2 \<and> rightButton (mouseState ?s))]"
    by blast
  with st show ?thesis by simp
qed

text \<open>C5, as the specification states it, fails for the wheel: the handler negates the
  wheel delta and scales it by 0.01. A wheel event with \<open>deltaY = 100\<close> is submitted as
  the scroll delta \<open>-1\<close>, not \<open>100\<close>.\<close>

theorem C5_wheel_delta_counterexample:
  "requests (handleWheel \<lparr>deltaY = 100\<rparr> (initial_state None 0)) =
     [send_mouse_input 0 0 (- 1) False False] \<and>
   requests (handleWheel \<lparr>deltaY = 100\<rparr> (initial_state None 0)) \<noteq>
     [send_mouse_input 0 0 100 False False]"
  by (simp add: handleWheel_def initial_state_def)

text \<open>C5, amended. A pointer move while a button is held submits the raw differences of the
  client coordinates to the position tracked last (which every mouse-down and every such
  move sets to the event's coordinates), with no scroll delta. A wheel event submits zero
  pointer deltas and the scroll delta \<open>- deltaY * 0.01\<close>.\<close>

theorem C5_deltas_submitted:
  "(leftButton (mouseState s) \<or> rightButton (mouseState s) \<longrightarrow>
      requests (handleMouseMove event s) =
        requests s @ [send_mouse_input (clientX event - lastX (mouseState s))
                        (clientY event - lastY (mouseState s)) 0
                        (leftButton (mouseState s)) (rightButton (mouseState s))] \<and>
      lastX (mouseState (handleMouseMove event s)) = clientX event \<and>
      lastY (mouseState (handleMouseMove event s)) = clientY event) \<and>
   lastX (mouseState (handleMouseDown event s)) = clientX event \<and>
   lastY (mouseState (handleMouseDown event s)) = clientY event \<and>
   requests (handleWheel wheel s) =
     requests s @ [send_mouse_input 0 0 (- deltaY wheel / 100)
                     (leftButton (mouseState s)) (rightButton (mouseState s))]"
  by (auto simp add: handleMouseMove_def handleMouseDown_def handleWheel_def Let_def)

theorem C5_deltas_submitted_witness:
  "leftButton (mouseState
      (handleMouseDown \<lparr>button = 0, clientX = 10, clientY = 20\<rparr> (initial_state None 0))) \<and>
   requests (handleMouseMove \<lparr>button = 0, clientX = 13, clientY = 18\<rparr>
      (handleMouseDown \<lparr>button = 0, clientX = 10, clientY = 20\<rparr> (initial_state None 0))) =
     [send_mouse_input 3 (- 2) 0 True False]"
proof -
  let ?ev = "\<lparr>button = 0, clientX = 13, clientY = 18\<rparr>"
  let ?s = "handleMouseDown \<lparr>button = 0, clientX = 10, clientY = 20\<rparr> (initial_state None 0)"
  have st: "leftButton (mouseState ?s)" "\<not> rightButton (mouseState ?s)" "requests ?s = []"
    "lastX (mouseState ?s) = 10" "lastY (mouseState ?s) = 20"
    by (simp_all add: handleMouseDown_def initial_state_def Let_def)
  from C5_deltas_submitted [of ?s ?ev] st(1)
  have "requests (handleMouseMove ?ev ?s) =
        requests ?s @ [send_mouse_input (clientX ?ev - lastX (mouseState ?s))
                        (clientY ?ev - lastY (mouseState ?s)) 0
                        (leftButton (mouseState ?s)) (rightButton (mouseState ?s))]"
    by blast
  with st show ?thesis by simp
qed

text \<open>C6. A failed frame fetch does not end the render loop. When a suspended render loop
  of either revision settles with an error (a rejected call, a status that is not a
  success, a body that cannot be read or decoded) while rendering is on, the handler
  changes nothing but the error message, its time stamp and the console (and these only
  when the last recorded error is more than a second old), sends no request of its own,
  and requests the next animation frame; when that frame comes and the canvas is there,
  the loop sends its next frame request.\<close>

theorem C6_failed_fetch_keeps_loop_alive:
  assumes "i < length (suspended s)" and "isRendering s"
    and "frame_result rv dec outcome = Some (Inl error)"
  shows "step rv dec (FrameSettled i outcome clk) s =
           s\<lparr>suspended := take i (suspended s) @ drop (i + 1) (suspended s),
             console := (if dateNow clk - lastErrorTime s > 1000
                         then console s @ [''Frame fetch error: '' @ String_of_error error]
                         else console s),
             errorMessage := (if dateNow clk - lastErrorTime s > 1000
                              then String_of_error error else errorMessage s),
             lastErrorTime := (if dateNow clk - lastErrorTime s > 1000
                               then dateNow clk else lastErrorTime s),
             rafPending := rafPending s @ [nextRafHandle s],
             nextRafHandle := nextRafHandle s + 1,
             animationId := Some (nextRafHandle s)\<rparr> \<and>
         isRendering (step rv dec (FrameSettled i outcome clk) s) \<and>
         nextRafHandle s \<in> set (rafPending (step rv dec (FrameSettled i outcome clk) s)) \<and>
         requests (step rv dec (FrameSettled i outcome clk) s) = requests s \<and>
         (\<forall>cv. canvasRef s = Some cv \<and> context2d cv \<longrightarrow>
            requests (step rv dec (AnimationFrame (nextRafHandle s) t0 t1)
                        (step rv dec (FrameSettled i outcome clk) s)) =
              requests s @ [frame_request rv])"
proof -
  have eq: "step rv dec (FrameSettled i outcome clk) s =
           s\<lparr>suspended := take i (suspended s) @ drop (i + 1) (suspended s),
             console := (if dateNow clk - lastErrorTime s > 1000
                         then console s @ [''Frame fetch error: '' @ String_of_error error]
                         else console s),
             errorMessage := (if dateNow clk - lastErrorTime s > 1000
                              then String_of_error error else errorMessage s),
             lastErrorTime := (if dateNow clk - lastErrorTime s > 1000
                               then dateNow clk else lastErrorTime s),
             rafPending := rafPending s @ [nextRafHandle s],
             nextRafHandle := nextRafHandle s + 1,
             animationId := Some (nextRafHandle s)\<rparr>"
    using assms
    by (simp add: renderLoop_settled_def frame_failed_def schedule_next_def
        requestAnimationFrame_def)
  show ?thesis
    unfolding eq using assms(2) by (auto simp add: renderLoop_def)
qed

theorem C6_failed_fetch_keeps_loop_alive_witness:
  "0 < length (suspended (run part_000 (\<lambda>blob. Inr (ImageBitmap 1 1 blob))
          [Start 0, AnimationFrame 1 16 17] (initial_state (Some \<lparr>context2d = True\<rparr>) 0))) \<and>
   isRendering (run part_000 (\<lambda>blob. Inr (ImageBitmap 1 1 blob))
          [Start 0, AnimationFrame 1 16 17] (initial_state (Some \<lparr>context2d = True\<rparr>) 0)) \<and>
   frame_result part_000 (\<lambda>blob. Inr (ImageBitmap 1 1 blob))
      (Fetched (Inr \<lparr>status = 404, body = Inr []\<rparr>)) =
     Some (Inl (JsError ''Error'' ''Frame fetch failed: 404'')) \<and>
   rafPending (step part_000 (\<lambda>blob. Inr (ImageBitmap 1 1 blob))
      (FrameSettled 0 (Fetched (Inr \<lparr>status = 404, body = Inr []\<rparr>))
         \<lparr>callEnd = 20, imageStart = 0, imageEnd = 0, drawStart = 0, drawEnd = 0,
          loopEnd = 0, fpsNow = 0, dateNow = 5000\<rparr>)
      (run part_000 (\<lambda>blob. Inr (ImageBitmap 1 1 blob))
         [Start 0, AnimationFrame 1 16 17] (initial_state (Some \<lparr>context2d = True\<rparr>) 0))) = [2] \<and>
   errorMessage (step part_000 (\<lambda>blob. Inr (ImageBitmap 1 1 blob))
      (FrameSettled 0 (Fetched (Inr \<lparr>status = 404, body = Inr []\<rparr>))
         \<lparr>callEnd = 20, imageStart = 0, imageEnd = 0, drawStart = 0, drawEnd = 0,
          loopEnd = 0, fpsNow = 0, dateNow = 5000\<rparr>)
      (run part_000 (\<lambda>blob. Inr (ImageBitmap 1 1 blob))
         [Start 0, AnimationFrame 1 16 17] (initial_state (Some \<lparr>context2d = True\<rparr>) 0))) =
     ''Error: Frame fetch failed: 404''"
proof -
  let ?dec = "\<lambda>blob. Inr (ImageBitmap 1 1 blob) :: js_error + ImageBitmap"
  let ?out = "Fetched (Inr \<lparr>status = 404, body = Inr []\<rparr>)"
  let ?clk = "\<lparr>callEnd = 20, imageStart = 0, imageEnd = 0, drawStart = 0, drawEnd = 0,
          loopEnd = 0, fpsNow = 0, dateNow = 5000\<rparr>"
  define s0 where "s0 = run part_000 ?dec [Start 0, AnimationFrame 1 16 17]
              (initial_state (Some \<lparr>context2d = True\<rparr>) 0)"
  have h1: "0 < length (suspended s0)"
    by (simp add: s0_def run_def initial_state_def handler_defs Let_def)
  have h2: "isRendering s0"
    by (simp add: s0_def run_def initial_state_def handler_defs Let_def)
  have h3: "frame_result part_000 ?dec ?out = Some (Inl (JsError ''Error'' ''Frame fetch failed: 404''))"
    by code_simp
  have st: "rafPending s0 = []" "nextRafHandle s0 = 2" "lastErrorTime s0 = 0"
    by (simp_all add: s0_def run_def initial_state_def handler_defs Let_def)
  from C6_failed_fetch_keeps_loop_alive [OF h1 h2 h3, of ?clk]
  have eq: "step part_000 ?dec (FrameSettled 0 ?out ?clk) s0 =
           s0\<lparr>suspended := take 0 (suspended s0) @ drop (0 + 1) (suspended s0),
             console := (if dateNow ?clk - lastErrorTime s0 > 1000
                         then console s0 @ [''Frame fetch error: '' @
                                String_of_error (JsError ''Error'' ''Frame fetch failed: 404'')]
                         else console s0),
             errorMessage := (if dateNow ?clk - lastErrorTime s0 > 1000
                              then String_of_error (JsError ''Error'' ''Frame fetch failed: 404'')
                              else errorMessage s0),
             lastErrorTime := (if dateNow ?clk - lastErrorTime s0 > 1000
                               then dateNow ?clk else lastErrorTime s0),
             rafPending := rafPending s0 @ [nextRafHandle s0],
             nextRafHandle := nextRafHandle s0 + 1,
             animationId := Some (nextRafHandle s0)\<rparr>"
    by blast
  have r: "rafPending (step part_000 ?dec (FrameSettled 0 ?out ?clk) s0) = [2]"
    by (subst eq) (simp add: st)
  have e: "errorMessage (step part_000 ?dec (FrameSettled 0 ?out ?clk) s0) =
           ''Error: Frame fetch failed: 404''"
    by (subst eq) (simp add: st)
  from h1 h2 h3 r e show ?thesis unfolding s0_def by (intro conjI)
qed

text \<open>C7. The input submission is fire and forget: \<^verbatim>\<open>sendMouseInput\<close> sends the command
  with the five values it is given and changes nothing else; when the command settles,
  with a payload or with an error, the state is what it was and the promise of
  \<^verbatim>\<open>sendMouseInput\<close> is fulfilled, never rejected.\<close>

theorem C7_input_submission_fire_and_forget:
  "sendMouseInput_settled outcome s = (Inr (), s) \<and>
   sendMouseInput dX dY scrollDelta leftB rightB s =
     s\<lparr>requests := requests s @ [send_mouse_input dX dY scrollDelta leftB rightB]\<rparr> \<and>
   step rv dec (InputSettled outcome) s = s"
  by (simp add: sendMouseInput_settled_def sendMouseInput_def split: sum.split)


text \<open>C9. A pointer move with no button held does nothing: the handler returns the state as
  it is, so nothing is sent and the tracked position stays.\<close>

theorem C9_idle_move_changes_nothing:
  assumes "\<not> leftButton (mouseState s)" and "\<not> rightButton (mouseState s)"
  shows "handleMouseMove event s = s \<and> step part_000 dec (MouseMove event) s = s"
  using assms by (simp add: handleMouseMove_def)

theorem C9_idle_move_changes_nothing_witness:
  "\<not> leftButton (mouseState (initial_state None 0)) \<and>
   \<not> rightButton (mouseState (initial_state None 0)) \<and>
   handleMouseMove \<lparr>button = 0, clientX = 5, clientY = 7\<rparr> (initial_state None 0) =
     initial_state None 0"
proof -
  have h1: "\<not> leftButton (mouseState (initial_state None 0))"
    and h2: "\<not> rightButton (mouseState (initial_state None 0))"
    by (simp_all add: initial_state_def)
  from C9_idle_move_changes_nothing [OF h1 h2] h1 h2 show ?thesis by simp
qed

text \<open>C10 holds but for one case. Start does nothing while rendering is on
  (\<open>startRendering_idempotent\<close>), stop cancels and resets both handles
  (\<open>stopRendering_complete\<close>), at most one stats interval is ever active
  (\<open>one_stats_interval\<close>), and no frame or stats request goes out while rendering is
  stopped (\<open>no_polling_while_stopped\<close>). But a render loop that waits for its frame
  across a stop and a start still requests its next animation frame when it resumes, next
  to the request the start has made: two animation-frame requests are then pending, they
  start two render loops that run side by side, and a later stop cancels one of the two
  handles only.\<close>

theorem C10_restart_during_fetch_doubles_the_loop:
  "rafPending (run part_000 (\<lambda>blob. Inr (ImageBitmap 1 1 blob)) restart_trace
      (initial_state (Some \<lparr>context2d = True\<rparr>) 0)) = [2, 3] \<and>
   animationId (run part_000 (\<lambda>blob. Inr (ImageBitmap 1 1 blob)) restart_trace
      (initial_state (Some \<lparr>context2d = True\<rparr>) 0)) = Some 3 \<and>
   length (suspended (run part_000 (\<lambda>blob. Inr (ImageBitmap 1 1 blob))
      (restart_trace @ [AnimationFrame 2 40 41, AnimationFrame 3 40 41])
      (initial_state (Some \<lparr>context2d = True\<rparr>) 0))) = 2 \<and>
   rafPending (run part_000 (\<lambda>blob. Inr (ImageBitmap 1 1 blob))
      (restart_trace @ [Stop])
      (initial_state (Some \<lparr>context2d = True\<rparr>) 0)) = [2]"
  by (simp add: restart_trace_def run_def initial_state_def ok_def binary_frame_def
      loop_sample_def avg_def handler_defs Let_def)

end
